theory Spec2Isabelle
  imports Main "HOL-Library.Sublist"
begin

section \<open>Python values and helpers used by \<open>backend/app.py\<close>\<close>

text \<open>
  Strings are \<open>string\<close> (lists of 8-bit characters).  \<open>lower\<close> is \<open>str.lower\<close> on the
  ASCII letters and leaves every other character as it is.  It is used where only a suffix
  test against ASCII text looks at the result (\<open>get_mime_type\<close>): no character outside
  ASCII lowercases to one of the characters tested there.  Where the lowercased string
  itself is kept (\<open>difficulty\<close>), \<open>str.lower\<close> is a parameter of the model.
\<close>

definition lower_char :: "char \<Rightarrow> char" where
  "lower_char c =
     (case map_of (zip ''ABCDEFGHIJKLMNOPQRSTUVWXYZ'' ''abcdefghijklmnopqrstuvwxyz'') c of
        Some d \<Rightarrow> d
      | None \<Rightarrow> c)"

definition lower :: "string \<Rightarrow> string" where
  "lower s = map lower_char s"

text \<open>\<open>s.endswith(suf)\<close> for one suffix, and for a tuple of suffixes.\<close>

definition endswith :: "string \<Rightarrow> string \<Rightarrow> bool" where
  "endswith s suf = (length suf \<le> length s \<and> drop (length s - length suf) s = suf)"

definition endswith_any :: "string \<Rightarrow> string list \<Rightarrow> bool" where
  "endswith_any s sufs = list_ex (endswith s) sufs"

section \<open>\<open>get_mime_type\<close>\<close>

definition get_mime_type :: "string \<Rightarrow> string" where
  "get_mime_type filename =
     (if endswith (lower filename) ''.pdf'' then ''application/pdf''
      else if endswith_any (lower filename) [''.doc'', ''.docx''] then ''application/octet-stream''
      else ''application/octet-stream'')"

section \<open>JSON values as Python sees them\<close>

text \<open>
  A float is a dyadic rational, an infinity or NaN; only its truth value is used.
\<close>

datatype pyfloat = Dyadic int int | Infinite bool | NaN

datatype json =
    JNull
  | JBool bool
  | JInt int
  | JFloat pyfloat
  | JStr string
  | JArr "json list"
  | JObj "(string \<times> json) list"

datatype exn =
    AttributeError string string
  | IndexError
  | KeyError
  | TypeError
  | UnboundLocalError string
  | OSError string

fun type_name :: "json \<Rightarrow> string" where
  "type_name JNull = ''NoneType''"
| "type_name (JBool b) = ''bool''"
| "type_name (JInt i) = ''int''"
| "type_name (JFloat f) = ''float''"
| "type_name (JStr s) = ''str''"
| "type_name (JArr xs) = ''list''"
| "type_name (JObj kvs) = ''dict''"

text \<open>\<open>str(e)\<close> of the AttributeError raised by \<open>v.attr\<close>.\<close>

definition attr_error_msg :: "json \<Rightarrow> string \<Rightarrow> string" where
  "attr_error_msg v attr =
     [CHR 0x27] @ type_name v @ [CHR 0x27] @ '' object has no attribute ''
       @ [CHR 0x27] @ attr @ [CHR 0x27]"

text \<open>Truth value of a value in \<open>if v:\<close>.\<close>

fun truthy :: "json \<Rightarrow> bool" where
  "truthy JNull = False"
| "truthy (JBool b) = b"
| "truthy (JInt i) = (i \<noteq> 0)"
| "truthy (JFloat f) = (case f of Dyadic m e \<Rightarrow> m \<noteq> 0 | Infinite s \<Rightarrow> True | NaN \<Rightarrow> True)"
| "truthy (JStr s) = (s \<noteq> [])"
| "truthy (JArr xs) = (xs \<noteq> [])"
| "truthy (JObj kvs) = (kvs \<noteq> [])"

definition dict_get :: "(string \<times> json) list \<Rightarrow> string \<Rightarrow> json \<Rightarrow> json" where
  "dict_get kvs k dflt = (case map_of kvs k of Some v \<Rightarrow> v | None \<Rightarrow> dflt)"

text \<open>\<open>v.get(k, dflt)\<close>: only a dict has the method.\<close>

definition py_get :: "json \<Rightarrow> string \<Rightarrow> json \<Rightarrow> exn + json" where
  "py_get v k dflt =
     (case v of
        JObj kvs \<Rightarrow> Inr (dict_get kvs k dflt)
      | _ \<Rightarrow> Inl (AttributeError (type_name v) ''get''))"

text \<open>
  \<open>v[0]\<close>: the first element of a list, the first character of a string, KeyError on a
  dict (its keys are strings), TypeError on everything else.
\<close>

definition py_index0 :: "json \<Rightarrow> exn + json" where
  "py_index0 v =
     (case v of
        JArr xs \<Rightarrow> (case xs of [] \<Rightarrow> Inl IndexError | x # _ \<Rightarrow> Inr x)
      | JStr s \<Rightarrow> (case s of [] \<Rightarrow> Inl IndexError | c # _ \<Rightarrow> Inr (JStr [c]))
      | JObj kvs \<Rightarrow> Inl KeyError
      | _ \<Rightarrow> Inl TypeError)"

definition bind_exn :: "exn + 'a \<Rightarrow> ('a \<Rightarrow> exn + 'b) \<Rightarrow> exn + 'b" where
  "bind_exn m f = (case m of Inl e \<Rightarrow> Inl e | Inr x \<Rightarrow> f x)"

fun is_substr :: "string \<Rightarrow> string \<Rightarrow> bool" where
  "is_substr k [] = (k = [])"
| "is_substr k (c # cs) = (prefix k (c # cs) \<or> is_substr k cs)"

text \<open>
  \<open>k in q\<close> for a string \<open>k\<close>: key membership on a dict, substring test on a string,
  element membership on a list, TypeError on None, a bool or a number.
\<close>

definition py_contains :: "string \<Rightarrow> json \<Rightarrow> exn + bool" where
  "py_contains k q =
     (case q of
        JObj kvs \<Rightarrow> Inr (k \<in> set (map fst kvs))
      | JStr s \<Rightarrow> Inr (is_substr k s)
      | JArr xs \<Rightarrow> Inr (JStr k \<in> set xs)
      | _ \<Rightarrow> Inl TypeError)"

text \<open>Decimal rendering of a number in an f-string.\<close>

definition digit_char :: "nat \<Rightarrow> char" where
  "digit_char d = ''0123456789'' ! d"

fun str_nat :: "nat \<Rightarrow> string" where
  "str_nat n = (if n < 10 then [digit_char n] else str_nat (n div 10) @ [digit_char (n mod 10)])"

declare str_nat.simps [simp del]

text \<open>
  \<open>{v}\<close> in an f-string: a string is inserted as it is; for any other value Python's
  \<open>str\<close> is a parameter \<open>py_str\<close> of the model.
\<close>

definition fmt_value :: "(json \<Rightarrow> string) \<Rightarrow> json \<Rightarrow> string" where
  "fmt_value py_str v = (case v of JStr s \<Rightarrow> s | _ \<Rightarrow> py_str v)"

section \<open>Process state and responses\<close>

record transcription_record =
  question_number :: string
  audio_file :: string
  transcription :: string
  timestamp :: string

datatype file_content = WavAudio | JsonExport "transcription_record list"

text \<open>
  The module-level dict \<open>interview_sessions\<close>, together with what the handlers do to
  the outside: the number of \<open>requests.post\<close> calls made, the arguments of
  \<open>time.sleep\<close> in order, and the files written under \<open>recordings/\<close>.
\<close>

record world =
  interview_sessions :: "string \<Rightarrow> transcription_record list option"
  net_calls :: nat
  slept :: "nat list"
  files :: "(string \<times> file_content) list"

datatype body =
    Questions "json list"
  | Error string
  | Transcription string string
  | SessionData "transcription_record list"
  | Exported string string "transcription_record list"

text \<open>A Flask response: the JSON body and the status code.\<close>

type_synonym response = "body \<times> nat"

definition RECORDINGS_DIR :: string where
  "RECORDINGS_DIR = ''recordings''"

definition path_join :: "string \<Rightarrow> string \<Rightarrow> string" where
  "path_join dir name = (if prefix ''/'' name then name else dir @ ''/'' @ name)"

section \<open>\<open>generate_questions\<close>: input extraction and prompt assembly\<close>

definition total_questions :: nat where
  "total_questions = 20"

definition jd_questions_count :: nat where
  "jd_questions_count = 15"

definition cv_questions_count :: nat where
  "cv_questions_count = 5"

record gen_input =
  job_title :: json
  job_description_text :: json
  difficulty :: string
  job_file_data :: json
  job_file_name :: json
  cv_file_data :: json
  cv_file_name :: json

text \<open>
  Step 1 of the handler, the \<open>try\<close> block.  The request body is \<open>Inl msg\<close> when
  \<open>request.get_json()\<close> raises with message \<open>msg\<close>.  The result is \<open>Inl msg\<close> when the
  block raises: the handler then answers 400 with that message.  \<open>str_lower\<close> is Python's
  \<open>str.lower\<close>.
\<close>

definition extract_input :: "(string \<Rightarrow> string) \<Rightarrow> string + json \<Rightarrow> string + gen_input" where
  "extract_input str_lower req =
     (case req of
        Inl msg \<Rightarrow> Inl msg
      | Inr data \<Rightarrow>
          (case data of
             JObj kvs \<Rightarrow>
               (case dict_get kvs ''difficulty'' (JStr ''easy'') of
                  JStr d \<Rightarrow>
                    Inr \<lparr> job_title = dict_get kvs ''job_title'' (JStr ''Software Developer''),
                          job_description_text = dict_get kvs ''job_description'' (JStr []),
                          difficulty = str_lower d,
                          job_file_data = dict_get kvs ''job_file_data'' JNull,
                          job_file_name = dict_get kvs ''job_file_name'' (JStr []),
                          cv_file_data = dict_get kvs ''cv_file_data'' JNull,
                          cv_file_name = dict_get kvs ''cv_file_name'' (JStr []) \<rparr>
                | v \<Rightarrow> Inl (attr_error_msg v ''lower''))
           | v \<Rightarrow> Inl (attr_error_msg v ''get'')))"

datatype part = TextPart string | InlineData string json

text \<open>\<open>get_mime_type(name)\<close> at a call site: \<open>name.lower()\<close> needs a string.\<close>

definition mime_of :: "json \<Rightarrow> exn + string" where
  "mime_of name =
     (case name of
        JStr n \<Rightarrow> Inr (get_mime_type n)
      | v \<Rightarrow> Inl (AttributeError (type_name v) ''lower''))"

definition add_job_part ::
  "(json \<Rightarrow> string) \<Rightarrow> gen_input \<Rightarrow> part list \<Rightarrow> exn + part list" where
  "add_job_part py_str inp contents_parts =
     (if truthy (job_file_data inp) then
        bind_exn (mime_of (job_file_name inp))
          (\<lambda>mime_type. Inr (contents_parts @ [InlineData mime_type (job_file_data inp)]))
      else if truthy (job_description_text inp) then
        Inr (contents_parts @
          [TextPart (''The Job Description is: '' @ fmt_value py_str (job_description_text inp))])
      else Inr contents_parts)"

definition add_cv_part :: "gen_input \<Rightarrow> part list \<Rightarrow> exn + part list" where
  "add_cv_part inp contents_parts =
     (if truthy (cv_file_data inp) then
        bind_exn (mime_of (cv_file_name inp))
          (\<lambda>mime_type. Inr (contents_parts @ [InlineData mime_type (cv_file_data inp)]))
      else Inr contents_parts)"

definition user_query :: "(json \<Rightarrow> string) \<Rightarrow> gen_input \<Rightarrow> string" where
  "user_query py_str inp =
     (let q0 = ''Generate a total of '' @ str_nat total_questions
                 @ '' interview questions for the role of '' @ [CHR 0x27]
                 @ fmt_value py_str (job_title inp) @ [CHR 0x27] @ '' with a '' @ [CHR 0x27]
                 @ difficulty inp @ [CHR 0x27] @ '' difficulty level. ''
                 @ ''The questions must be a balanced mix of Technical, Behavioral, and Situational types. '';
          q1 = (if truthy (job_file_data inp) \<or> truthy (job_description_text inp)
                then q0 @ ''Specifically, '' @ str_nat jd_questions_count
                  @ '' questions should focus on the general requirements, skills, and common scenarios relevant to the job profile itself. ''
                else q0);
          q2 = (if truthy (cv_file_data inp)
                then q1 @ ''The remaining '' @ str_nat cv_questions_count
                  @ '' questions MUST be highly personalized, based solely on specific projects, skills, or experiences found in your CV, making them relevant to the role.''
                else q1)
      in q2)"

text \<open>Step 2 of the handler: the list \<open>contents_parts\<close>.\<close>

definition assemble_parts :: "(json \<Rightarrow> string) \<Rightarrow> gen_input \<Rightarrow> exn + part list" where
  "assemble_parts py_str inp =
     bind_exn (add_job_part py_str inp [])
       (\<lambda>ps1. bind_exn (add_cv_part inp ps1)
          (\<lambda>ps2. Inr (ps2 @ [TextPart (user_query py_str inp)])))"

definition response_schema :: json where
  "response_schema =
     JObj [(''type'', JStr ''ARRAY''),
           (''items'', JObj
              [(''type'', JStr ''OBJECT''),
               (''properties'', JObj
                  [(''type'', JObj [(''type'', JStr ''STRING''),
                       (''description'', JStr ''The category of the question: Technical, Behavioral, or Situational.'')]),
                   (''text'', JObj [(''type'', JStr ''STRING''),
                       (''description'', JStr ''The specific interview question generated.'')])]),
               (''required'', JArr [JStr ''type'', JStr ''text''])])]"

definition system_prompt :: string where
  "system_prompt =
     ''You are an expert AI Interview Coach. Your task is to analyze all provided input (Job Description text/file and CV/Resume file). ''
     @ ''Generate a balanced set of interview questions (Technical, Behavioral, Situational) tailored to the user'' @ [CHR 0x27] @ ''s difficulty level. ''
     @ ''Adhere strictly to the requested question distribution ratio: 15 questions based on general job profile and 5 highly personalized questions based on the CV. ''
     @ ''Questions must directly connect the user'' @ [CHR 0x27] @ ''s experience in the CV to the required skills in the Job Description. ''
     @ ''You MUST return ONLY a JSON array matching the provided schema. Do not include any introductory or concluding text.''"

record payload =
  contents :: "part list"
  systemInstruction :: string
  responseMimeType :: string
  responseSchema :: json

definition make_payload :: "part list \<Rightarrow> payload" where
  "make_payload contents_parts =
     \<lparr> contents = contents_parts, systemInstruction = system_prompt,
       responseMimeType = ''application/json'', responseSchema = response_schema \<rparr>"


section \<open>\<open>generate_questions\<close>: the call with exponential backoff\<close>

text \<open>
  What one \<open>requests.post\<close> gives: a response with a status code and a body text, or
  an exception of \<open>requests\<close> (with its message).  Some of these exceptions are
  ValueErrors as well (InvalidURL, MissingSchema, InvalidSchema, InvalidHeader,
  InvalidProxyURL): they are \<open>RequestValueError\<close>, all the others \<open>RequestException\<close>.
\<close>

datatype net_outcome =
    RequestException string
  | RequestValueError string
  | Response nat string

text \<open>\<open>response.raise_for_status()\<close> raises HTTPError for 4xx and 5xx, and only for them.\<close>

definition raise_for_status :: "nat \<Rightarrow> bool" where
  "raise_for_status status_code = (400 \<le> status_code \<and> status_code < 600)"

text \<open>
  \<open>result.get('candidates', [{}])[0]\<close> and
  \<open>candidate.get('content', {}).get('parts', [{}])[0].get('text', '[]')\<close>.
\<close>

definition extract_json_text :: "json \<Rightarrow> exn + json" where
  "extract_json_text result =
     bind_exn (py_get result ''candidates'' (JArr [JObj []]))
       (\<lambda>candidates. bind_exn (py_index0 candidates)
          (\<lambda>candidate. bind_exn (py_get candidate ''content'' (JObj []))
             (\<lambda>content. bind_exn (py_get content ''parts'' (JArr [JObj []]))
                (\<lambda>parts. bind_exn (py_index0 parts)
                   (\<lambda>part0. py_get part0 ''text'' (JStr ''[]''))))))"

text \<open>
  \<open>all('text' in q and 'type' in q for q in questions_list)\<close>: both \<open>and\<close> and \<open>all\<close>
  stop at the first false test, and an exception of a test leaves the whole expression.
\<close>

fun all_text_and_type :: "json list \<Rightarrow> exn + bool" where
  "all_text_and_type [] = Inr True"
| "all_text_and_type (q # qs) =
     (case py_contains ''text'' q of
        Inl e \<Rightarrow> Inl e
      | Inr False \<Rightarrow> Inr False
      | Inr True \<Rightarrow>
          (case py_contains ''type'' q of
             Inl e \<Rightarrow> Inl e
           | Inr False \<Rightarrow> Inr False
           | Inr True \<Rightarrow> all_text_and_type qs))"

text \<open>
  How the body of the \<open>try\<close> ends: with the \<open>return\<close> of the question list, in one of
  the three \<open>except\<close> clauses, or with an exception that none of them catches.
\<close>

datatype attempt_result =
    Success "json list"
  | HTTPError nat string
  | JSONSchemaError
  | NetworkError string
  | Uncaught exn

text \<open>
  The body of the \<open>try\<close> for one attempt.  \<open>json_loads\<close> is \<open>json.loads\<close> (\<open>None\<close> for
  JSONDecodeError); \<open>response.json()\<close> is \<open>json_loads\<close> of the body text.  The second
  component is the local variable \<open>json_text\<close> after the body: \<open>None\<close> while it has
  never been assigned.  The clause \<open>except (json.JSONDecodeError, ValueError)\<close> stands
  before \<open>except requests.exceptions.RequestException\<close>, so an exception of
  \<open>requests\<close> that is a ValueError ends in the former.
\<close>

definition try_body ::
  "(string \<Rightarrow> json option) \<Rightarrow> net_outcome \<Rightarrow> string option
     \<Rightarrow> attempt_result \<times> string option" where
  "try_body json_loads outcome json_text =
     (case outcome of
        RequestException msg \<Rightarrow> (NetworkError msg, json_text)
      | RequestValueError msg \<Rightarrow> (JSONSchemaError, json_text)
      | Response status_code text \<Rightarrow>
          if raise_for_status status_code then (HTTPError status_code text, json_text)
          else
            (case json_loads text of
               None \<Rightarrow> (JSONSchemaError, json_text)
             | Some result \<Rightarrow>
                 (case extract_json_text result of
                    Inl e \<Rightarrow> (Uncaught e, json_text)
                  | Inr (JStr t) \<Rightarrow>
                      (case json_loads t of
                         None \<Rightarrow> (JSONSchemaError, Some t)
                       | Some (JArr questions_list) \<Rightarrow>
                           (case all_text_and_type questions_list of
                              Inl e \<Rightarrow> (Uncaught e, Some t)
                            | Inr True \<Rightarrow> (Success questions_list, Some t)
                            | Inr False \<Rightarrow> (JSONSchemaError, Some t))
                       | Some _ \<Rightarrow> (JSONSchemaError, Some t))
                  | Inr _ \<Rightarrow> (Uncaught TypeError, json_text))))"

definition max_retries :: nat where
  "max_retries = 3"

definition requests_post :: "world \<Rightarrow> world" where
  "requests_post w = w\<lparr>net_calls := Suc (net_calls w)\<rparr>"

definition time_sleep :: "nat \<Rightarrow> world \<Rightarrow> world" where
  "time_sleep secs w = w\<lparr>slept := slept w @ [secs]\<rparr>"

text \<open>
  The loop \<open>for attempt in range(max_retries)\<close>, from \<open>attempt\<close> on.  \<open>post k\<close> is what
  the \<open>k\<close>-th call of this request gives.  The result is the response of the handler, or
  the exception that leaves it.
\<close>

function call_gemini ::
  "(string \<Rightarrow> json option) \<Rightarrow> (nat \<Rightarrow> net_outcome) \<Rightarrow> nat \<Rightarrow> string option \<Rightarrow> world
     \<Rightarrow> (exn + response) \<times> world" where
  "call_gemini json_loads post attempt json_text w =
     (if attempt < max_retries then
        (let w1 = requests_post w;
             r = try_body json_loads (post attempt) json_text
         in case fst r of
              Success questions_list \<Rightarrow> (Inr (Questions questions_list, 200), w1)
            | HTTPError status_code text \<Rightarrow>
                if attempt < max_retries - 1 \<and> status_code \<in> set [429, 500, 503]
                then call_gemini json_loads post (Suc attempt) (snd r) (time_sleep (2 ^ attempt) w1)
                else (Inr (Error (''Gemini API request failed: '' @ ''HTTP Error ''
                             @ str_nat status_code @ '': '' @ text), status_code), w1)
            | JSONSchemaError \<Rightarrow>
                if attempt < max_retries - 1
                then call_gemini json_loads post (Suc attempt) (snd r) (time_sleep (2 ^ attempt) w1)
                else (case snd r of
                        None \<Rightarrow> (Inl (UnboundLocalError ''json_text''), w1)
                      | Some t \<Rightarrow>
                          (Inr (Error (''Failed to parse structured response from AI after ''
                             @ str_nat max_retries @ '' attempts. Raw output: '' @ t), 500), w1))
            | NetworkError msg \<Rightarrow>
                if attempt < max_retries - 1
                then call_gemini json_loads post (Suc attempt) (snd r) (time_sleep (2 ^ attempt) w1)
                else (Inr (Error (''Network error communicating with Gemini API: '' @ msg), 500), w1)
            | Uncaught e \<Rightarrow> (Inl e, w1))
      else (Inr (Error ''Failed to generate questions after multiple retries.'', 500), w))"
  by pat_completeness auto
termination
  by (relation "measure (\<lambda>(json_loads, post, attempt, json_text, w). max_retries - attempt)") auto

declare call_gemini.simps [simp del]

text \<open>
  The handler.  \<open>upstream\<close> is the external service: what it answers to a payload at the
  \<open>k\<close>-th call.
\<close>

definition generate_questions ::
  "(string \<Rightarrow> string) \<Rightarrow> (json \<Rightarrow> string) \<Rightarrow> (string \<Rightarrow> json option)
     \<Rightarrow> (payload \<Rightarrow> nat \<Rightarrow> net_outcome)
     \<Rightarrow> string + json \<Rightarrow> world \<Rightarrow> (exn + response) \<times> world" where
  "generate_questions str_lower py_str json_loads upstream req w =
     (case extract_input str_lower req of
        Inl msg \<Rightarrow> (Inr (Error (''Invalid JSON input: '' @ msg), 400), w)
      | Inr inp \<Rightarrow>
          (case assemble_parts py_str inp of
             Inl e \<Rightarrow> (Inl e, w)
           | Inr contents_parts \<Rightarrow>
               call_gemini json_loads (upstream (make_payload contents_parts)) 0 None w))"

section \<open>\<open>transcribe_audio\<close>\<close>

text \<open>
  The multipart request: the uploaded file under \<open>audio\<close> if there is one, and the two
  form fields if they are there.
\<close>

record transcribe_request =
  audio :: "string option"
  form_question_number :: "string option"
  form_session_id :: "string option"

datatype recognition =
    Recognized string
  | UnknownValueError
  | RequestError string
  | OtherError string

text \<open>
  What the handler meets outside: the clock (already formatted), the exception of the
  pydub conversion if it raises, the exception of reading the WAV file if it raises, and
  what \<open>recognize_google\<close> does.
\<close>

record audio_env =
  now :: string
  conversion_error :: "string option"
  read_error :: "string option"
  recognize_google :: recognition

definition form_get :: "string option \<Rightarrow> string \<Rightarrow> string" where
  "form_get field dflt = (case field of Some v \<Rightarrow> v | None \<Rightarrow> dflt)"

definition sentinel_text :: string where
  "sentinel_text = ''[Could not understand audio - please speak clearly]''"

text \<open>
  \<open>if session_id not in interview_sessions: interview_sessions[session_id] = []\<close>
  followed by \<open>interview_sessions[session_id].append(record)\<close>.
\<close>

definition append_record ::
  "string \<Rightarrow> transcription_record \<Rightarrow> world \<Rightarrow> world" where
  "append_record session_id rec w =
     (let sessions = interview_sessions w;
          sessions1 = (if sessions session_id = None then sessions(session_id \<mapsto> [])
                       else sessions)
      in w\<lparr>interview_sessions :=
             sessions1(session_id \<mapsto> (case sessions1 session_id of Some rs \<Rightarrow> rs @ [rec] | None \<Rightarrow> [rec]))\<rparr>)"

definition write_file :: "string \<Rightarrow> file_content \<Rightarrow> world \<Rightarrow> world" where
  "write_file path content w = w\<lparr>files := files w @ [(path, content)]\<rparr>"

text \<open>
  The handler.  The WAV file is written by the conversion; the original upload is never
  saved.  The outermost \<open>except Exception\<close> of the source has no branch here: none of
  the steps outside the two inner \<open>try\<close> blocks raises in this model.
\<close>

definition transcribe_audio :: "audio_env \<Rightarrow> transcribe_request \<Rightarrow> world \<Rightarrow> response \<times> world" where
  "transcribe_audio env req w =
     (case audio req of
        None \<Rightarrow> ((Error ''No audio file provided'', 400), w)
      | Some audio_bytes \<Rightarrow>
          (let question_number = form_get (form_question_number req) ''0'';
               session_id = form_get (form_session_id req) ''default'';
               timestamp = now env;
               wav_filename = ''q'' @ question_number @ ''_'' @ timestamp @ ''.wav'';
               wav_filepath = path_join RECORDINGS_DIR wav_filename
           in case conversion_error env of
                Some msg \<Rightarrow>
                  ((Error (''Audio conversion error. Check if ffprobe/ffmpeg is installed on your system. Details: '' @ msg), 500), w)
              | None \<Rightarrow>
                  (let w1 = write_file wav_filepath WavAudio w
                   in case read_error env of
                        Some msg \<Rightarrow>
                          ((Error (''Error reading audio file for transcription: '' @ msg), 500), w1)
                      | None \<Rightarrow>
                          (let finish = (\<lambda>text.
                                 ((Transcription text wav_filename, 200),
                                  append_record session_id
                                    \<lparr> question_number = question_number,
                                      audio_file = wav_filepath,
                                      transcription = text,
                                      timestamp = timestamp \<rparr> w1))
                           in case recognize_google env of
                                Recognized text \<Rightarrow> finish text
                              | UnknownValueError \<Rightarrow> finish sentinel_text
                              | RequestError msg \<Rightarrow>
                                  ((Error (''Speech recognition service error: '' @ msg), 500), w1)
                              | OtherError msg \<Rightarrow>
                                  ((Error (''Error reading audio file for transcription: '' @ msg), 500), w1)))))"

section \<open>\<open>get_session\<close> and \<open>export_session\<close>\<close>

definition get_session :: "string \<Rightarrow> world \<Rightarrow> response \<times> world" where
  "get_session session_id w =
     (case interview_sessions w session_id of
        Some records \<Rightarrow> ((SessionData records, 200), w)
      | None \<Rightarrow> ((SessionData [], 200), w))"

text \<open>
  \<open>can_open path\<close> says whether \<open>open(path, 'w')\<close> succeeds; when it does not, the
  OSError leaves the handler.
\<close>

definition export_session ::
  "string \<Rightarrow> (string \<Rightarrow> bool) \<Rightarrow> string \<Rightarrow> world \<Rightarrow> (exn + response) \<times> world" where
  "export_session clock can_open session_id w =
     (case interview_sessions w session_id of
        None \<Rightarrow> (Inr (Error ''Session not found'', 404), w)
      | Some records \<Rightarrow>
          (let export_filename = ''interview_raw_export_'' @ session_id @ ''_'' @ clock @ ''.json'';
               export_path = path_join RECORDINGS_DIR export_filename
           in if can_open export_path
              then (Inr (Exported ''Raw session data exported successfully'' export_filename records, 200),
                    write_file export_path (JsonExport records) w)
              else (Inl (OSError export_path), w)))"

section \<open>Sample inputs\<close>

text \<open>
  Concrete inputs on which the theorems below are evaluated: an empty process state, the
  answers of the external service, and the table of \<open>json.loads\<close> on the texts that
  occur in them.
\<close>

definition world0 :: world where
  "world0 = \<lparr> interview_sessions = Map.empty, net_calls = 0, slept = [], files = [] \<rparr>"

text \<open>The response object of the service whose first part holds the text \<open>t\<close>.\<close>

definition gemini_result :: "string \<Rightarrow> json" where
  "gemini_result t =
     JObj [(''candidates'',
            JArr [JObj [(''content'', JObj [(''parts'', JArr [JObj [(''text'', JStr t)]])])]])]"

definition escape_quotes :: "string \<Rightarrow> string" where
  "escape_quotes s = concat (map (\<lambda>c. if c = CHR 0x22 then [CHR 0x5C, c] else [c]) s)"

definition body_of :: "string \<Rightarrow> string" where
  \<open>body_of t = ''{"candidates":[{"content":{"parts":[{"text":"'' @ escape_quotes t @ ''"}]}}]}''\<close>

definition questions_text :: string where
  \<open>questions_text = ''[{"type":"Technical","text":"What is a mutex?"}]''\<close>

text \<open>
  A response with two candidates, the first with two parts: the questions are the text of
  the first part of the first candidate.
\<close>

definition body_two_candidates :: string where
  \<open>body_two_candidates =
     ''{"candidates":[{"content":{"parts":[{"text":"'' @ escape_quotes questions_text
       @ ''"},{"text":"[]"}],"role":"model"},"finishReason":"STOP"},''
       @ ''{"content":{"parts":[{"text":"{}"}],"role":"model"}}]}''\<close>

definition result_two_candidates :: json where
  "result_two_candidates =
     JObj [(''candidates'',
            JArr [JObj [(''content'',
                         JObj [(''parts'', JArr [JObj [(''text'', JStr questions_text)],
                                                 JObj [(''text'', JStr ''[]'')]]),
                               (''role'', JStr ''model'')]),
                        (''finishReason'', JStr ''STOP'')],
                  JObj [(''content'',
                         JObj [(''parts'', JArr [JObj [(''text'', JStr ''{}'')]]),
                               (''role'', JStr ''model'')])]])]"

definition sample_loads :: "string \<Rightarrow> json option" where
  "sample_loads =
     map_of
       [(questions_text,
           JArr [JObj [(''type'', JStr ''Technical''), (''text'', JStr ''What is a mutex?'')]]),
        (body_of questions_text, gemini_result questions_text),
        (''[5]'', JArr [JInt 5]),
        (body_of ''[5]'', gemini_result ''[5]''),
        (''{}'', JObj []),
        (body_of ''{}'', gemini_result ''{}''),
        (''[]'', JArr []),
        (body_two_candidates, result_two_candidates)]"

definition post_503_503_ok :: "nat \<Rightarrow> net_outcome" where
  "post_503_503_ok k =
     (if k < 2 then Response 503 ''Service Unavailable'' else Response 200 body_two_candidates)"

definition post_always_503 :: "nat \<Rightarrow> net_outcome" where
  "post_always_503 k = Response 503 (''unavailable, call '' @ str_nat (Suc k))"

definition post_400 :: "nat \<Rightarrow> net_outcome" where
  "post_400 k = Response 400 ''API key not valid''"

definition post_304 :: "nat \<Rightarrow> net_outcome" where
  "post_304 k = Response 304 []"

definition post_five :: "nat \<Rightarrow> net_outcome" where
  "post_five k = Response 200 (body_of ''[5]'')"

definition post_object :: "nat \<Rightarrow> net_outcome" where
  "post_object k = Response 200 (body_of ''{}'')"

definition sample_upstream :: "payload \<Rightarrow> nat \<Rightarrow> net_outcome" where
  "sample_upstream p = post_503_503_ok"

text \<open>A stand-in for Python's \<open>str\<close> on values that are not strings.\<close>

definition sample_py_str :: "json \<Rightarrow> string" where
  "sample_py_str v =
     (case v of
        JNull \<Rightarrow> ''None''
      | JBool b \<Rightarrow> (if b then ''True'' else ''False'')
      | _ \<Rightarrow> ''<'' @ type_name v @ ''>'')"

definition sample_record :: transcription_record where
  "sample_record =
     \<lparr> question_number = ''1'', audio_file = ''recordings/q1_20240101_120000.wav'',
       transcription = ''I enjoy debugging'', timestamp = ''20240101_120000'' \<rparr>"

definition world1 :: world where
  "world1 = world0\<lparr>interview_sessions := [''s1'' \<mapsto> [sample_record]]\<rparr>"

text \<open>Request bodies of \<open>generate_questions\<close>: job text only, and job text with a CV file.\<close>

definition request_job_only :: json where
  "request_job_only =
     JObj [(''job_title'', JStr ''Data Engineer''), (''job_description'', JStr ''Build pipelines''),
           (''difficulty'', JStr ''Hard'')]"

definition request_job_and_cv :: json where
  "request_job_and_cv =
     JObj [(''job_title'', JStr ''Data Engineer''), (''job_description'', JStr ''Build pipelines''),
           (''difficulty'', JStr ''Hard''), (''cv_file_data'', JStr ''JVBERi0xLjQK''),
           (''cv_file_name'', JStr ''cv.PDF'')]"

definition input_job_only :: gen_input where
  "input_job_only =
     \<lparr> job_title = JStr ''Data Engineer'', job_description_text = JStr ''Build pipelines'',
       difficulty = ''hard'', job_file_data = JNull, job_file_name = JStr [],
       cv_file_data = JNull, cv_file_name = JStr [] \<rparr>"

definition input_job_and_cv :: gen_input where
  "input_job_and_cv =
     \<lparr> job_title = JStr ''Data Engineer'', job_description_text = JStr ''Build pipelines'',
       difficulty = ''hard'', job_file_data = JNull, job_file_name = JStr [],
       cv_file_data = JStr ''JVBERi0xLjQK'', cv_file_name = JStr ''cv.PDF'' \<rparr>"

text \<open>
  The numbers written in a text: its maximal runs of decimal digits, in order.  Used to
  read the question counts off the instruction text.
\<close>

definition is_digit :: "char \<Rightarrow> bool" where
  "is_digit c = (c \<in> set ''0123456789'')"

fun digit_runs :: "string \<Rightarrow> string \<Rightarrow> string list" where
  "digit_runs cur [] = (if cur = [] then [] else [cur])"
| "digit_runs cur (c # cs) =
     (if is_digit c then digit_runs (cur @ [c]) cs
      else (if cur = [] then [] else [cur]) @ digit_runs [] cs)"

definition numbers_in :: "string \<Rightarrow> string list" where
  "numbers_in s = digit_runs [] s"

text \<open>A transcription request with unintelligible audio.\<close>

definition mumbled_request :: transcribe_request where
  "mumbled_request =
     \<lparr> audio = Some ''webm-bytes'', form_question_number = Some ''2'', form_session_id = Some ''s1'' \<rparr>"

definition mumbled_env :: audio_env where
  "mumbled_env =
     \<lparr> now = ''20240101_120500'', conversion_error = None, read_error = None,
       recognize_google = UnknownValueError \<rparr>"

definition can_open_all :: "string \<Rightarrow> bool" where
  "can_open_all path = True"

section \<open>Properties\<close>

lemma endswith_suffix: "endswith s suf = suffix suf s"
proof
  assume "endswith s suf"
  then have "s = take (length s - length suf) s @ suf"
    by (metis append_take_drop_id endswith_def)
  then show "suffix suf s"
    by (metis suffixI)
next
  assume "suffix suf s"
  then obtain p where "s = p @ suf"
    by (auto simp: suffix_def)
  then show "endswith s suf"
    by (simp add: endswith_def)
qed

text \<open>
  C10: \<open>get_mime_type\<close> answers \<open>application/pdf\<close> exactly when the lowercased file
  name ends with \<open>.pdf\<close>, and \<open>application/octet-stream\<close> for every other name; names
  ending in \<open>.doc\<close> or \<open>.docx\<close> and the empty name are among the latter.
\<close>

theorem get_mime_type_total:
  "get_mime_type f =
     (if suffix ''.pdf'' (lower f) then ''application/pdf'' else ''application/octet-stream'')
   \<and> (get_mime_type f = ''application/pdf'' \<longleftrightarrow> suffix ''.pdf'' (lower f))
   \<and> get_mime_type (p @ ''.doc'') = ''application/octet-stream''
   \<and> get_mime_type (p @ ''.docx'') = ''application/octet-stream''
   \<and> get_mime_type '''' = ''application/octet-stream''"
proof -
  have a: "get_mime_type g =
      (if suffix ''.pdf'' (lower g) then ''application/pdf'' else ''application/octet-stream'')"
    for g
    by (simp add: get_mime_type_def endswith_suffix)
  have doc: "\<not> suffix ''.pdf'' (lower (p @ ''.doc''))"
    by (simp add: lower_def lower_char_def suffix_def)
  have docx: "\<not> suffix ''.pdf'' (lower (p @ ''.docx''))"
    by (simp add: lower_def lower_char_def suffix_def)
  have emp: "\<not> suffix ''.pdf'' (lower '''')"
    by (simp add: lower_def)
  show ?thesis
    using a doc docx emp by simp
qed

theorem get_mime_type_total_witness:
  "get_mime_type ''Resume.PDF'' = ''application/pdf''
   \<and> get_mime_type ''cv.docx'' = ''application/octet-stream''
   \<and> get_mime_type ''notes.pdf.txt'' = ''application/octet-stream''"
  using get_mime_type_total [of "''Resume.PDF''" "''cv''"]
    get_mime_type_total [of "''notes.pdf.txt''" "''cv''"]
  by (simp add: lower_def lower_char_def endswith_suffix [symmetric] endswith_def)

subsection \<open>The retry loop\<close>

lemma call_gemini_success:
  assumes "attempt < max_retries"
    and "fst (try_body json_loads (post attempt) json_text) = Success qs"
  shows "call_gemini json_loads post attempt json_text w = (Inr (Questions qs, 200), requests_post w)"
  using assms by (subst call_gemini.simps) (simp add: Let_def)

lemma call_gemini_uncaught:
  assumes "attempt < max_retries"
    and "fst (try_body json_loads (post attempt) json_text) = Uncaught e"
  shows "call_gemini json_loads post attempt json_text w = (Inl e, requests_post w)"
  using assms by (subst call_gemini.simps) (simp add: Let_def)

lemma call_gemini_http_retry:
  assumes "attempt < max_retries - 1"
    and "fst (try_body json_loads (post attempt) json_text) = HTTPError s t"
    and "s \<in> set [429, 500, 503]"
  shows "call_gemini json_loads post attempt json_text w =
     call_gemini json_loads post (Suc attempt) (snd (try_body json_loads (post attempt) json_text))
       (time_sleep (2 ^ attempt) (requests_post w))"
  using assms by (subst call_gemini.simps) (auto simp add: Let_def)

lemma call_gemini_http_final:
  assumes "attempt < max_retries"
    and "fst (try_body json_loads (post attempt) json_text) = HTTPError s t"
    and "\<not> (attempt < max_retries - 1 \<and> s \<in> set [429, 500, 503])"
  shows "call_gemini json_loads post attempt json_text w =
     (Inr (Error (''Gemini API request failed: '' @ ''HTTP Error '' @ str_nat s @ '': '' @ t), s),
      requests_post w)"
  using assms by (subst call_gemini.simps) (auto simp add: Let_def)

lemma call_gemini_schema_retry:
  assumes "attempt < max_retries - 1"
    and "fst (try_body json_loads (post attempt) json_text) = JSONSchemaError"
  shows "call_gemini json_loads post attempt json_text w =
     call_gemini json_loads post (Suc attempt) (snd (try_body json_loads (post attempt) json_text))
       (time_sleep (2 ^ attempt) (requests_post w))"
  using assms by (subst call_gemini.simps) (auto simp add: Let_def)

lemma call_gemini_schema_final:
  assumes "attempt < max_retries" and "\<not> attempt < max_retries - 1"
    and "fst (try_body json_loads (post attempt) json_text) = JSONSchemaError"
  shows "call_gemini json_loads post attempt json_text w =
     ((case snd (try_body json_loads (post attempt) json_text) of
         None \<Rightarrow> Inl (UnboundLocalError ''json_text'')
       | Some t \<Rightarrow> Inr (Error (''Failed to parse structured response from AI after ''
                     @ str_nat max_retries @ '' attempts. Raw output: '' @ t), 500)),
      requests_post w)"
  using assms by (subst call_gemini.simps) (auto simp add: Let_def split: option.splits)

lemma try_body_http:
  "raise_for_status s \<Longrightarrow> try_body json_loads (Response s t) json_text = (HTTPError s t, json_text)"
  by (simp add: try_body_def)

lemma all_text_and_type_objects:
  assumes "\<forall>q\<in>set qs. \<exists>kvs. q = JObj kvs \<and> ''type'' \<in> fst ` set kvs \<and> ''text'' \<in> fst ` set kvs"
  shows "all_text_and_type qs = Inr True"
  using assms
proof (induction qs)
  case Nil
  then show ?case by simp
next
  case (Cons q qs)
  then obtain kvs where q: "q = JObj kvs" and ty: "''type'' \<in> fst ` set kvs"
    and tx: "''text'' \<in> fst ` set kvs"
    by auto
  have "py_contains ''text'' q = Inr True" and "py_contains ''type'' q = Inr True"
    using q ty tx by (simp_all add: py_contains_def)
  moreover have "all_text_and_type qs = Inr True"
    using Cons by simp
  ultimately show ?case
    by simp
qed

lemma try_body_valid:
  assumes "\<not> raise_for_status s" and "json_loads body = Some result"
    and "extract_json_text result = Inr (JStr t)" and "json_loads t = Some (JArr qs)"
    and "all_text_and_type qs = Inr True"
  shows "try_body json_loads (Response s body) json_text = (Success qs, Some t)"
  using assms by (simp add: try_body_def)

lemma str_nat_503: "str_nat 503 = ''503''"
  by (simp add: str_nat.simps digit_char_def)

lemma call_gemini_network_retry:
  assumes "attempt < max_retries - 1"
    and "fst (try_body json_loads (post attempt) json_text) = NetworkError msg"
  shows "call_gemini json_loads post attempt json_text w =
     call_gemini json_loads post (Suc attempt) (snd (try_body json_loads (post attempt) json_text))
       (time_sleep (2 ^ attempt) (requests_post w))"
  using assms by (subst call_gemini.simps) (auto simp add: Let_def)

lemma call_gemini_network_final:
  assumes "attempt < max_retries" and "\<not> attempt < max_retries - 1"
    and "fst (try_body json_loads (post attempt) json_text) = NetworkError msg"
  shows "call_gemini json_loads post attempt json_text w =
     (Inr (Error (''Network error communicating with Gemini API: '' @ msg), 500), requests_post w)"
  using assms by (subst call_gemini.simps) (auto simp add: Let_def)

lemma call_gemini_exhausted:
  assumes "\<not> attempt < max_retries"
  shows "call_gemini json_loads post attempt json_text w =
     (Inr (Error ''Failed to generate questions after multiple retries.'', 500), w)"
  using assms by (subst call_gemini.simps) simp

text \<open>
  The loop changes the process state only in the count of calls and the list of sleeps.
\<close>

lemma call_gemini_frame:
  "interview_sessions (snd (call_gemini json_loads post attempt json_text w)) = interview_sessions w
   \<and> files (snd (call_gemini json_loads post attempt json_text w)) = files w"
proof (induction json_loads post attempt json_text w rule: call_gemini.induct)
  case (1 json_loads post attempt json_text w)
  let ?r = "try_body json_loads (post attempt) json_text"
  let ?w1 = "requests_post w"
  let ?w2 = "time_sleep (2 ^ attempt) ?w1"
  let ?next = "call_gemini json_loads post (Suc attempt) (snd ?r) ?w2"
  have w1: "interview_sessions ?w1 = interview_sessions w \<and> files ?w1 = files w"
    by (simp add: requests_post_def)
  have w2: "interview_sessions ?w2 = interview_sessions w \<and> files ?w2 = files w"
    by (simp add: requests_post_def time_sleep_def)
  show ?case
  proof (cases "attempt < max_retries")
    case False
    then show ?thesis
      by (simp add: call_gemini_exhausted)
  next
    case lt: True
    show ?thesis
    proof (cases "fst ?r")
      case (Success qs)
      then show ?thesis
        using lt w1 by (simp add: call_gemini_success)
    next
      case (HTTPError s t)
      show ?thesis
      proof (cases "attempt < max_retries - 1 \<and> s \<in> set [429, 500, 503]")
        case True
        have "interview_sessions (snd ?next) = interview_sessions ?w2
            \<and> files (snd ?next) = files ?w2"
          using "1.IH"(1) [OF lt refl refl HTTPError True] .
        then show ?thesis
          using True HTTPError w2 by (simp add: call_gemini_http_retry)
      next
        case False
        then show ?thesis
          using lt HTTPError w1 by (simp add: call_gemini_http_final)
      qed
    next
      case JSONSchemaError
      show ?thesis
      proof (cases "attempt < max_retries - 1")
        case True
        have "interview_sessions (snd ?next) = interview_sessions ?w2
            \<and> files (snd ?next) = files ?w2"
          using "1.IH"(2) [OF lt refl refl JSONSchemaError True] .
        then show ?thesis
          using True JSONSchemaError w2 by (simp add: call_gemini_schema_retry)
      next
        case False
        then show ?thesis
          using lt JSONSchemaError w1 by (simp add: call_gemini_schema_final)
      qed
    next
      case (NetworkError msg)
      show ?thesis
      proof (cases "attempt < max_retries - 1")
        case True
        have "interview_sessions (snd ?next) = interview_sessions ?w2
            \<and> files (snd ?next) = files ?w2"
          using "1.IH"(3) [OF lt refl refl NetworkError True] .
        then show ?thesis
          using True NetworkError w2 by (simp add: call_gemini_network_retry)
      next
        case False
        then show ?thesis
          using lt NetworkError w1 by (simp add: call_gemini_network_final)
      qed
    next
      case (Uncaught e)
      then show ?thesis
        using lt w1 by (simp add: call_gemini_uncaught)
    qed
  qed
qed

text \<open>
  The text that the handler takes from a response object: the value under \<open>text\<close> of the
  first element of \<open>parts\<close>, in the \<open>content\<close> of the first element of \<open>candidates\<close>,
  whatever else the object, the candidate, the content and the two lists hold.
\<close>

lemma extract_json_text_first_part:
  assumes "map_of result_kvs ''candidates'' = Some (JArr (JObj candidate # more_candidates))"
    and "map_of candidate ''content'' = Some (JObj content)"
    and "map_of content ''parts'' = Some (JArr (JObj part0 # more_parts))"
    and "map_of part0 ''text'' = Some v"
  shows "extract_json_text (JObj result_kvs) = Inr v"
  using assms
  by (simp add: extract_json_text_def py_get_def py_index0_def bind_exn_def dict_get_def)

lemma extract_json_text_gemini_result: "extract_json_text (gemini_result t) = Inr (JStr t)"
  by (simp add: gemini_result_def extract_json_text_first_part)

text \<open>
  C1: when the service answers 503 at the first two calls and then a 2xx response whose
  body is an object with the text \<open>t\<close> in the first part of its first candidate, and \<open>t\<close>
  parses to a list of objects that all have the keys \<open>type\<close> and \<open>text\<close>, the loop returns
  that list as a success (status 200), has made exactly three calls, and has slept 1 and
  then 2 seconds (\<open>2 ^ attempt\<close> for attempts 0 and 1).
\<close>

theorem retry_503_twice_then_success:
  assumes "post 0 = Response 503 e0" and "post 1 = Response 503 e1"
    and "post 2 = Response status body" and "200 \<le> status" and "status < 300"
    and "json_loads body = Some (JObj result_kvs)"
    and "map_of result_kvs ''candidates'' = Some (JArr (JObj candidate # more_candidates))"
    and "map_of candidate ''content'' = Some (JObj content)"
    and "map_of content ''parts'' = Some (JArr (JObj part0 # more_parts))"
    and "map_of part0 ''text'' = Some (JStr t)"
    and "json_loads t = Some (JArr qs)"
    and "\<forall>q\<in>set qs. \<exists>kvs. q = JObj kvs \<and> ''type'' \<in> fst ` set kvs \<and> ''text'' \<in> fst ` set kvs"
  shows "call_gemini json_loads post 0 None w =
     (Inr (Questions qs, 200), w\<lparr>net_calls := net_calls w + 3, slept := slept w @ [1, 2]\<rparr>)"
proof -
  have r503: "raise_for_status 503"
    by (simp add: raise_for_status_def)
  have b0: "try_body json_loads (post 0) None = (HTTPError 503 e0, None)"
    using assms(1) r503 by (simp add: try_body_http)
  have b1: "try_body json_loads (post (Suc 0)) None = (HTTPError 503 e1, None)"
    using assms(2) r503 by (simp add: try_body_http)
  have ok: "\<not> raise_for_status status"
    using assms(5) by (simp add: raise_for_status_def)
  have x: "extract_json_text (JObj result_kvs) = Inr (JStr t)"
    using assms(7,8,9,10) by (rule extract_json_text_first_part)
  have b2: "try_body json_loads (post (Suc (Suc 0))) None = (Success qs, Some t)"
    using assms(3) try_body_valid [OF ok assms(6) x assms(11) all_text_and_type_objects [OF assms(12)]]
    by (simp add: numeral_2_eq_2)
  have s0: "call_gemini json_loads post 0 None w =
      call_gemini json_loads post (Suc 0) None (time_sleep (2 ^ 0) (requests_post w))"
    using b0 by (simp add: call_gemini_http_retry max_retries_def)
  have s1: "call_gemini json_loads post (Suc 0) None w' =
      call_gemini json_loads post (Suc (Suc 0)) None (time_sleep (2 ^ Suc 0) (requests_post w'))" for w'
    using b1 by (simp add: call_gemini_http_retry max_retries_def)
  have s2: "call_gemini json_loads post (Suc (Suc 0)) None w' =
      (Inr (Questions qs, 200), requests_post w')" for w'
    using b2 by (simp add: call_gemini_success max_retries_def)
  show ?thesis
    by (simp add: s0 s1 s2 requests_post_def time_sleep_def)
qed

theorem retry_503_twice_then_success_witness:
  "call_gemini sample_loads post_503_503_ok 0 None world0 =
     (Inr (Questions [JObj [(''type'', JStr ''Technical''), (''text'', JStr ''What is a mutex?'')]], 200),
      world0\<lparr>net_calls := 3, slept := [1, 2]\<rparr>)"
proof -
  have l1: "sample_loads body_two_candidates = Some result_two_candidates"
    by (simp add: sample_loads_def body_of_def questions_text_def escape_quotes_def
        body_two_candidates_def)
  have l2: "sample_loads questions_text =
      Some (JArr [JObj [(''type'', JStr ''Technical''), (''text'', JStr ''What is a mutex?'')]])"
    by (simp add: sample_loads_def questions_text_def)
  show ?thesis
    using retry_503_twice_then_success [of post_503_503_ok "''Service Unavailable''"
        "''Service Unavailable''" 200 body_two_candidates sample_loads
        "[(''candidates'',
            JArr [JObj [(''content'',
                         JObj [(''parts'', JArr [JObj [(''text'', JStr questions_text)],
                                                 JObj [(''text'', JStr ''[]'')]]),
                               (''role'', JStr ''model'')]),
                        (''finishReason'', JStr ''STOP'')],
                  JObj [(''content'',
                         JObj [(''parts'', JArr [JObj [(''text'', JStr ''{}'')]]),
                               (''role'', JStr ''model'')])]])]"
        "[(''content'',
            JObj [(''parts'', JArr [JObj [(''text'', JStr questions_text)],
                                    JObj [(''text'', JStr ''[]'')]]),
                  (''role'', JStr ''model'')]),
          (''finishReason'', JStr ''STOP'')]"
        "[JObj [(''content'',
                 JObj [(''parts'', JArr [JObj [(''text'', JStr ''{}'')]]),
                       (''role'', JStr ''model'')])]]"
        "[(''parts'', JArr [JObj [(''text'', JStr questions_text)],
                            JObj [(''text'', JStr ''[]'')]]),
          (''role'', JStr ''model'')]"
        "[(''text'', JStr questions_text)]"
        "[JObj [(''text'', JStr ''[]'')]]"
        questions_text
        "[JObj [(''type'', JStr ''Technical''), (''text'', JStr ''What is a mutex?'')]]" world0]
      l1 l2
    by (simp add: post_503_503_ok_def world0_def result_two_candidates_def)
qed

text \<open>
  C2: when the service answers 503 at all three calls, the loop returns a failure with
  status 503 whose message carries the body of the last answer; it has made exactly three
  calls and has slept 1 and 2 seconds, with no sleep after the last call.
\<close>

theorem all_503_fails_after_three:
  assumes "post 0 = Response 503 e0" and "post 1 = Response 503 e1"
    and "post 2 = Response 503 e2"
  shows "call_gemini json_loads post 0 None w =
     (Inr (Error (''Gemini API request failed: HTTP Error 503: '' @ e2), 503),
      w\<lparr>net_calls := net_calls w + 3, slept := slept w @ [1, 2]\<rparr>)"
proof -
  have r503: "raise_for_status 503"
    by (simp add: raise_for_status_def)
  have b0: "try_body json_loads (post 0) None = (HTTPError 503 e0, None)"
    using assms(1) r503 by (simp add: try_body_http)
  have b1: "try_body json_loads (post (Suc 0)) None = (HTTPError 503 e1, None)"
    using assms(2) r503 by (simp add: try_body_http)
  have b2: "try_body json_loads (post (Suc (Suc 0))) None = (HTTPError 503 e2, None)"
    using assms(3) r503 by (simp add: try_body_http numeral_2_eq_2)
  have s0: "call_gemini json_loads post 0 None w =
      call_gemini json_loads post (Suc 0) None (time_sleep (2 ^ 0) (requests_post w))"
    using b0 by (simp add: call_gemini_http_retry max_retries_def)
  have s1: "call_gemini json_loads post (Suc 0) None w' =
      call_gemini json_loads post (Suc (Suc 0)) None (time_sleep (2 ^ Suc 0) (requests_post w'))" for w'
    using b1 by (simp add: call_gemini_http_retry max_retries_def)
  have s2: "call_gemini json_loads post (Suc (Suc 0)) None w' =
      (Inr (Error (''Gemini API request failed: '' @ ''HTTP Error '' @ str_nat 503 @ '': '' @ e2), 503),
       requests_post w')" for w'
    using b2 by (simp add: call_gemini_http_final max_retries_def)
  show ?thesis
    by (simp add: s0 s1 s2 requests_post_def time_sleep_def str_nat_503)
qed

theorem all_503_fails_after_three_witness:
  "call_gemini sample_loads post_always_503 0 None world0 =
     (Inr (Error ''Gemini API request failed: HTTP Error 503: unavailable, call 3'', 503),
      world0\<lparr>net_calls := 3, slept := [1, 2]\<rparr>)"
  using all_503_fails_after_three [of post_always_503 "''unavailable, call 1''"
      "''unavailable, call 2''" "''unavailable, call 3''" sample_loads world0]
  by (simp add: post_always_503_def world0_def str_nat.simps digit_char_def)

text \<open>
  C3, as amended: a 4xx or 5xx status other than 429, 500 and 503 ends the loop at the
  first call, with no sleep; the failure has that status and a message carrying the status
  and the body text as it came.
\<close>

theorem other_4xx_5xx_fails_at_once:
  assumes "post 0 = Response status text"
    and "400 \<le> status" and "status < 600"
    and "status \<noteq> 429" and "status \<noteq> 500" and "status \<noteq> 503"
  shows "call_gemini json_loads post 0 None w =
     (Inr (Error (''Gemini API request failed: HTTP Error '' @ str_nat status @ '': '' @ text), status),
      w\<lparr>net_calls := net_calls w + 1\<rparr>)"
proof -
  have "raise_for_status status"
    using assms(2,3) by (simp add: raise_for_status_def)
  then have b0: "try_body json_loads (post 0) None = (HTTPError status text, None)"
    using assms(1) by (simp add: try_body_http)
  have "\<not> (0 < max_retries - 1 \<and> status \<in> set [429, 500, 503])"
    using assms(4,5,6) by simp
  then have "call_gemini json_loads post 0 None w =
      (Inr (Error (''Gemini API request failed: '' @ ''HTTP Error '' @ str_nat status @ '': '' @ text),
         status), requests_post w)"
    using b0 by (simp add: call_gemini_http_final max_retries_def)
  then show ?thesis
    by (simp add: requests_post_def)
qed

theorem other_4xx_5xx_fails_at_once_witness:
  "call_gemini sample_loads post_400 0 None world0 =
     (Inr (Error ''Gemini API request failed: HTTP Error 400: API key not valid'', 400),
      world0\<lparr>net_calls := 1\<rparr>)"
  using other_4xx_5xx_fails_at_once [of post_400 400 "''API key not valid''" sample_loads world0]
  by (simp add: post_400_def world0_def str_nat.simps digit_char_def)

text \<open>
  C3, counterexample to the claim as stated for every non-2xx status: 304 is neither 2xx
  nor one of 429, 500, 503, and \<open>raise_for_status\<close> does not raise for it.  With an empty
  body \<open>response.json()\<close> fails, the attempt is retried twice with sleeps of 1 and 2, and at
  the third failure the message refers to \<open>json_text\<close>, which was never assigned.
\<close>

theorem status_304_is_retried:
  "call_gemini sample_loads post_304 0 None world0 =
     (Inl (UnboundLocalError ''json_text''), world0\<lparr>net_calls := 3, slept := [1, 2]\<rparr>)"
proof -
  have l: "sample_loads [] = None"
    by (simp add: sample_loads_def questions_text_def body_of_def body_two_candidates_def)
  have b: "try_body sample_loads (post_304 k) None = (JSONSchemaError, None)" for k
    by (simp add: try_body_def post_304_def raise_for_status_def l)
  have s0: "call_gemini sample_loads post_304 0 None w' =
      call_gemini sample_loads post_304 (Suc 0) None (time_sleep (2 ^ 0) (requests_post w'))" for w'
    using b by (simp add: call_gemini_schema_retry max_retries_def)
  have s1: "call_gemini sample_loads post_304 (Suc 0) None w' =
      call_gemini sample_loads post_304 (Suc (Suc 0)) None (time_sleep (2 ^ Suc 0) (requests_post w'))" for w'
    using b by (simp add: call_gemini_schema_retry max_retries_def)
  have s2: "call_gemini sample_loads post_304 (Suc (Suc 0)) None w' =
      (Inl (UnboundLocalError ''json_text''), requests_post w')" for w'
    using b by (simp add: call_gemini_schema_final max_retries_def)
  show ?thesis
    by (simp add: s0 s1 s2 requests_post_def time_sleep_def world0_def)
qed

text \<open>
  C4, at the input where the code leaves the claim: a 200 answer whose embedded text is
  \<open>[5]\<close>, a list with an element that has neither \<open>type\<close> nor \<open>text\<close>.  The test
  \<open>'text' in 5\<close> raises TypeError, no \<open>except\<close> clause catches it, and the handler ends
  at the first call without retry.
\<close>

theorem number_element_escapes_handlers:
  "call_gemini sample_loads post_five 0 None world0 = (Inl TypeError, world0\<lparr>net_calls := 1\<rparr>)"
proof -
  have l1: "sample_loads (body_of ''[5]'') = Some (gemini_result ''[5]'')"
    by (simp add: sample_loads_def body_of_def questions_text_def escape_quotes_def
        body_two_candidates_def)
  have l2: "sample_loads ''[5]'' = Some (JArr [JInt 5])"
    by (simp add: sample_loads_def questions_text_def body_of_def escape_quotes_def
        body_two_candidates_def)
  have x: "extract_json_text (gemini_result ''[5]'') = Inr (JStr ''[5]'')"
    by (simp add: extract_json_text_def gemini_result_def py_get_def py_index0_def bind_exn_def
        dict_get_def)
  have "try_body sample_loads (post_five 0) None = (Uncaught TypeError, Some ''[5]'')"
    by (simp add: try_body_def post_five_def raise_for_status_def l1 l2 x py_contains_def)
  then have "call_gemini sample_loads post_five 0 None world0 = (Inl TypeError, requests_post world0)"
    by (simp add: call_gemini_uncaught max_retries_def)
  then show ?thesis
    by (simp add: requests_post_def world0_def)
qed

text \<open>
  C9: whatever the request and whatever the service answers, \<open>generate_questions\<close> leaves
  the session store as it was.
\<close>

theorem generate_questions_keeps_sessions:
  "interview_sessions (snd (generate_questions str_lower py_str json_loads upstream req w)) =
     interview_sessions w"
  by (simp add: generate_questions_def call_gemini_frame split: sum.splits)

theorem generate_questions_keeps_sessions_witness:
  "interview_sessions (snd (generate_questions lower sample_py_str sample_loads sample_upstream
      (Inr request_job_only) world1)) ''s1'' = Some [sample_record]"
  using generate_questions_keeps_sessions [of lower sample_py_str sample_loads sample_upstream
      "Inr request_job_only" world1]
  by (simp add: world1_def world0_def)

subsection \<open>Prompt assembly\<close>

lemma str_nat_counts:
  "str_nat total_questions = ''20''" "str_nat jd_questions_count = ''15''"
  "str_nat cv_questions_count = ''5''"
  by (simp_all add: total_questions_def jd_questions_count_def cv_questions_count_def
      str_nat.simps digit_char_def)

lemma dict_get_other_key:
  "k \<noteq> k' \<Longrightarrow> dict_get ((k, v) # kvs) k' d = dict_get kvs k' d"
  by (simp add: dict_get_def)

text \<open>
  C5, as amended: the three counts are the constants 20, 15 and 5, with 15 + 5 = 20; the
  instruction text always states the total 20, states the job count 15 exactly when job
  content (file or text) is supplied, and states the CV count 5 exactly when a CV file is
  supplied.  No count is read from the request: the handler reads seven keys, and any other
  key of the request body changes nothing.
\<close>

theorem question_counts_fixed:
  "total_questions = 20 \<and> jd_questions_count = 15 \<and> cv_questions_count = 5
   \<and> jd_questions_count + cv_questions_count = total_questions
   \<and> user_query py_str inp =
       ''Generate a total of 20 interview questions for the role of '' @ [CHR 0x27]
         @ fmt_value py_str (job_title inp) @ [CHR 0x27] @ '' with a '' @ [CHR 0x27]
         @ difficulty inp @ [CHR 0x27] @ '' difficulty level. ''
         @ ''The questions must be a balanced mix of Technical, Behavioral, and Situational types. ''
         @ (if truthy (job_file_data inp) \<or> truthy (job_description_text inp)
            then ''Specifically, 15 questions should focus on the general requirements, skills, and common scenarios relevant to the job profile itself. ''
            else [])
         @ (if truthy (cv_file_data inp)
            then ''The remaining 5 questions MUST be highly personalized, based solely on specific projects, skills, or experiences found in your CV, making them relevant to the role.''
            else [])
   \<and> (k \<notin> set [''job_title'', ''job_description'', ''difficulty'', ''job_file_data'',
                ''job_file_name'', ''cv_file_data'', ''cv_file_name'']
        \<longrightarrow> extract_input str_lower (Inr (JObj ((k, v) # kvs))) = extract_input str_lower (Inr (JObj kvs)))"
proof -
  have fixed: "total_questions = 20 \<and> jd_questions_count = 15 \<and> cv_questions_count = 5
      \<and> jd_questions_count + cv_questions_count = total_questions"
    by (simp add: total_questions_def jd_questions_count_def cv_questions_count_def)
  have qtext: "user_query py_str inp =
       ''Generate a total of 20 interview questions for the role of '' @ [CHR 0x27]
         @ fmt_value py_str (job_title inp) @ [CHR 0x27] @ '' with a '' @ [CHR 0x27]
         @ difficulty inp @ [CHR 0x27] @ '' difficulty level. ''
         @ ''The questions must be a balanced mix of Technical, Behavioral, and Situational types. ''
         @ (if truthy (job_file_data inp) \<or> truthy (job_description_text inp)
            then ''Specifically, 15 questions should focus on the general requirements, skills, and common scenarios relevant to the job profile itself. ''
            else [])
         @ (if truthy (cv_file_data inp)
            then ''The remaining 5 questions MUST be highly personalized, based solely on specific projects, skills, or experiences found in your CV, making them relevant to the role.''
            else [])"
    unfolding user_query_def Let_def str_nat_counts by simp
  have keys: "extract_input str_lower (Inr (JObj ((k, v) # kvs))) = extract_input str_lower (Inr (JObj kvs))"
    if "k \<notin> set [''job_title'', ''job_description'', ''difficulty'', ''job_file_data'',
                ''job_file_name'', ''cv_file_data'', ''cv_file_name'']"
    using that by (simp add: extract_input_def dict_get_other_key split: json.splits)
  show ?thesis
    using fixed qtext keys by blast
qed

theorem question_counts_fixed_witness:
  "user_query sample_py_str input_job_and_cv =
     ''Generate a total of 20 interview questions for the role of '' @ [CHR 0x27]
       @ ''Data Engineer'' @ [CHR 0x27] @ '' with a '' @ [CHR 0x27] @ ''hard'' @ [CHR 0x27]
       @ '' difficulty level. ''
       @ ''The questions must be a balanced mix of Technical, Behavioral, and Situational types. ''
       @ ''Specifically, 15 questions should focus on the general requirements, skills, and common scenarios relevant to the job profile itself. ''
       @ ''The remaining 5 questions MUST be highly personalized, based solely on specific projects, skills, or experiences found in your CV, making them relevant to the role.''
   \<and> extract_input lower (Inr (JObj [(''num_questions'', JInt 7), (''job_description'', JStr ''Build pipelines'')]))
     = extract_input lower (Inr (JObj [(''job_description'', JStr ''Build pipelines'')]))"
  using question_counts_fixed [of sample_py_str input_job_and_cv "''num_questions''" lower "JInt 7"
      "[(''job_description'', JStr ''Build pipelines'')]"]
  by (simp add: input_job_and_cv_def fmt_value_def)

text \<open>
  C5, counterexample to the claim as stated for every request: with job text and no CV
  the instruction text names the total 20 and the job count 15 only; the CV count 5 is not
  in the text, so the text does not state that the two counts add up to the total.
\<close>

theorem cv_count_absent_without_cv:
  "extract_input lower (Inr request_job_only) = Inr input_job_only
   \<and> user_query sample_py_str input_job_only =
       ''Generate a total of 20 interview questions for the role of '' @ [CHR 0x27]
         @ ''Data Engineer'' @ [CHR 0x27] @ '' with a '' @ [CHR 0x27] @ ''hard'' @ [CHR 0x27]
         @ '' difficulty level. ''
         @ ''The questions must be a balanced mix of Technical, Behavioral, and Situational types. ''
         @ ''Specifically, 15 questions should focus on the general requirements, skills, and common scenarios relevant to the job profile itself. ''
   \<and> numbers_in (user_query sample_py_str input_job_only) = [''20'', ''15'']"
proof -
  have a: "extract_input lower (Inr request_job_only) = Inr input_job_only"
    by (simp add: extract_input_def request_job_only_def input_job_only_def dict_get_def
        lower_def lower_char_def)
  have b: "user_query sample_py_str input_job_only =
       ''Generate a total of 20 interview questions for the role of '' @ [CHR 0x27]
         @ ''Data Engineer'' @ [CHR 0x27] @ '' with a '' @ [CHR 0x27] @ ''hard'' @ [CHR 0x27]
         @ '' difficulty level. ''
         @ ''The questions must be a balanced mix of Technical, Behavioral, and Situational types. ''
         @ ''Specifically, 15 questions should focus on the general requirements, skills, and common scenarios relevant to the job profile itself. ''"
    unfolding user_query_def Let_def str_nat_counts
    by (simp add: input_job_only_def fmt_value_def)
  have c: "numbers_in (user_query sample_py_str input_job_only) = [''20'', ''15'']"
    unfolding b by (simp add: numbers_in_def is_digit_def)
  show ?thesis
    using a b c by blast
qed

text \<open>
  C6: when the file names of the supplied files are strings, the parts are, in this order:
  the job part (the inline document if a job file is supplied, else the job text as a text
  part if there is one, else nothing), then the inline CV document if and only if a CV file
  is supplied, then the instruction text, which is the last part.
\<close>

theorem parts_in_order:
  assumes "truthy (job_file_data inp) \<Longrightarrow> job_file_name inp = JStr job_name"
    and "truthy (cv_file_data inp) \<Longrightarrow> cv_file_name inp = JStr cv_name"
  shows "assemble_parts py_str inp =
     Inr ((if truthy (job_file_data inp)
             then [InlineData (get_mime_type job_name) (job_file_data inp)]
           else if truthy (job_description_text inp)
             then [TextPart (''The Job Description is: '' @ fmt_value py_str (job_description_text inp))]
           else [])
          @ (if truthy (cv_file_data inp)
               then [InlineData (get_mime_type cv_name) (cv_file_data inp)]
             else [])
          @ [TextPart (user_query py_str inp)])"
proof -
  let ?job = "if truthy (job_file_data inp)
             then [InlineData (get_mime_type job_name) (job_file_data inp)]
           else if truthy (job_description_text inp)
             then [TextPart (''The Job Description is: '' @ fmt_value py_str (job_description_text inp))]
           else []"
  let ?cv = "if truthy (cv_file_data inp)
               then [InlineData (get_mime_type cv_name) (cv_file_data inp)]
             else []"
  have job: "add_job_part py_str inp [] = Inr ?job"
    using assms(1) by (simp add: add_job_part_def mime_of_def bind_exn_def)
  have cv: "add_cv_part inp ps = Inr (ps @ ?cv)" for ps
    using assms(2) by (simp add: add_cv_part_def mime_of_def bind_exn_def)
  show ?thesis
    unfolding assemble_parts_def job cv by (simp add: bind_exn_def)
qed

theorem parts_in_order_witness:
  "assemble_parts sample_py_str input_job_and_cv =
     Inr [TextPart ''The Job Description is: Build pipelines'',
          InlineData ''application/pdf'' (JStr ''JVBERi0xLjQK''),
          TextPart (user_query sample_py_str input_job_and_cv)]"
proof -
  have m: "get_mime_type ''cv.PDF'' = ''application/pdf''"
    by (simp add: get_mime_type_def lower_def lower_char_def endswith_def)
  show ?thesis
    using parts_in_order [of input_job_and_cv "[]" "''cv.PDF''" sample_py_str] m
    by (simp add: input_job_and_cv_def fmt_value_def)
qed

subsection \<open>A payload that is not a list\<close>

text \<open>
  The part of the schema validation that does work: three 2xx answers whose embedded
  text parses to something that is not a list are retried with sleeps of 1 and 2, and the
  failure after the third has status 500 and carries the last raw text.
\<close>

lemma try_body_not_list:
  assumes "\<not> raise_for_status s" and "json_loads body = Some result"
    and "extract_json_text result = Inr (JStr t)" and "json_loads t = Some v"
    and "\<And>qs. v \<noteq> JArr qs"
  shows "try_body json_loads (Response s body) json_text = (JSONSchemaError, Some t)"
  using assms by (cases v) (auto simp add: try_body_def)

lemma non_list_payload_exhausts_retries:
  assumes "\<And>k. k < 3 \<Longrightarrow> post k = Response (status k) (body k)"
    and "\<And>k. k < 3 \<Longrightarrow> 200 \<le> status k \<and> status k < 300"
    and "\<And>k. k < 3 \<Longrightarrow> json_loads (body k) = Some (result k)"
    and "\<And>k. k < 3 \<Longrightarrow> extract_json_text (result k) = Inr (JStr (t k))"
    and "\<And>k. k < 3 \<Longrightarrow> json_loads (t k) = Some (v k)"
    and "\<And>k qs. k < 3 \<Longrightarrow> v k \<noteq> JArr qs"
  shows "call_gemini json_loads post 0 None w =
     (Inr (Error (''Failed to parse structured response from AI after 3 attempts. Raw output: '' @ t 2), 500),
      w\<lparr>net_calls := net_calls w + 3, slept := slept w @ [1, 2]\<rparr>)"
proof -
  have b: "try_body json_loads (post k) jt = (JSONSchemaError, Some (t k))" if "k < 3" for k jt
  proof -
    have "\<not> raise_for_status (status k)"
      using assms(2) [OF that] by (simp add: raise_for_status_def)
    then show ?thesis
      using assms(1,3,4,5,6) that by (simp add: try_body_not_list)
  qed
  have s0: "call_gemini json_loads post 0 None w =
      call_gemini json_loads post (Suc 0) (Some (t 0)) (time_sleep (2 ^ 0) (requests_post w))"
    using b [of 0 None] by (simp add: call_gemini_schema_retry max_retries_def)
  have s1: "call_gemini json_loads post (Suc 0) (Some (t 0)) w' =
      call_gemini json_loads post (Suc (Suc 0)) (Some (t (Suc 0))) (time_sleep (2 ^ Suc 0) (requests_post w'))" for w'
    using b [of "Suc 0" "Some (t 0)"] by (simp add: call_gemini_schema_retry max_retries_def)
  have s2: "call_gemini json_loads post (Suc (Suc 0)) (Some (t (Suc 0))) w' =
      (Inr (Error (''Failed to parse structured response from AI after ''
                     @ str_nat max_retries @ '' attempts. Raw output: '' @ t (Suc (Suc 0))), 500),
       requests_post w')" for w'
    using b [of "Suc (Suc 0)" "Some (t (Suc 0))"]
    by (simp add: call_gemini_schema_final max_retries_def)
  have n: "str_nat max_retries = ''3''"
    by (simp add: max_retries_def str_nat.simps digit_char_def)
  show ?thesis
    by (simp add: s0 s1 s2 n requests_post_def time_sleep_def numeral_2_eq_2)
qed

lemma object_payload_exhausts_retries:
  "call_gemini sample_loads post_object 0 None world0 =
     (Inr (Error ''Failed to parse structured response from AI after 3 attempts. Raw output: {}'', 500),
      world0\<lparr>net_calls := 3, slept := [1, 2]\<rparr>)"
proof -
  have l1: "sample_loads (body_of ''{}'') = Some (gemini_result ''{}'')"
    by (simp add: sample_loads_def body_of_def questions_text_def escape_quotes_def
        body_two_candidates_def)
  have l2: "sample_loads ''{}'' = Some (JObj [])"
    by (simp add: sample_loads_def questions_text_def body_of_def escape_quotes_def
        body_two_candidates_def)
  have x: "extract_json_text (gemini_result ''{}'') = Inr (JStr ''{}'')"
    by (simp add: extract_json_text_def gemini_result_def py_get_def py_index0_def bind_exn_def
        dict_get_def)
  show ?thesis
    using non_list_payload_exhausts_retries [of post_object "\<lambda>k. 200" "\<lambda>k. body_of ''{}''"
        sample_loads "\<lambda>k. gemini_result ''{}''" "\<lambda>k. ''{}''" "\<lambda>k. JObj []" world0] l1 l2 x
    by (simp add: post_object_def world0_def)
qed

subsection \<open>Sessions and transcription\<close>

text \<open>
  C7: for a session identifier that is not in the store, \<open>get_session\<close> answers the
  empty list with status 200 and \<open>export_session\<close> answers 404 and writes nothing (the
  process state is unchanged); for an identifier in the store, \<open>get_session\<close> answers the
  stored list.
\<close>

theorem read_permissive_export_strict:
  "(interview_sessions w session_id = None \<longrightarrow>
      get_session session_id w = ((SessionData [], 200), w)
      \<and> export_session clock can_open session_id w = (Inr (Error ''Session not found'', 404), w))
   \<and> (interview_sessions w session_id = Some records \<longrightarrow>
      get_session session_id w = ((SessionData records, 200), w))"
  by (simp add: get_session_def export_session_def)

theorem read_permissive_export_strict_witness:
  "get_session ''nobody'' world1 = ((SessionData [], 200), world1)
   \<and> export_session ''20240101_130000'' can_open_all ''nobody'' world1
       = (Inr (Error ''Session not found'', 404), world1)
   \<and> get_session ''s1'' world1 = ((SessionData [sample_record], 200), world1)"
  using read_permissive_export_strict [of world1 "''nobody''" "''20240101_130000''" can_open_all "[]"]
    read_permissive_export_strict [of world1 "''s1''" "''20240101_130000''" can_open_all "[sample_record]"]
  by (simp add: world1_def world0_def)

text \<open>
  C8: when the audio is converted and read and the recognizer raises UnknownValueError,
  \<open>transcribe_audio\<close> answers 200 with the fixed sentinel text, and a record with that
  text is appended to the session of the request (created if it was not there).
\<close>

theorem unintelligible_audio_is_recorded:
  assumes "audio req = Some audio_bytes"
    and "conversion_error env = None" and "read_error env = None"
    and "recognize_google env = UnknownValueError"
  shows "fst (transcribe_audio env req w) =
      (Transcription ''[Could not understand audio - please speak clearly]''
         (''q'' @ form_get (form_question_number req) ''0'' @ ''_'' @ now env @ ''.wav''), 200)
    \<and> interview_sessions (snd (transcribe_audio env req w)) (form_get (form_session_id req) ''default'') =
      Some ((case interview_sessions w (form_get (form_session_id req) ''default'') of
               None \<Rightarrow> [] | Some rs \<Rightarrow> rs)
            @ [\<lparr> question_number = form_get (form_question_number req) ''0'',
                 audio_file = ''recordings/q'' @ form_get (form_question_number req) ''0''
                    @ ''_'' @ now env @ ''.wav'',
                 transcription = ''[Could not understand audio - please speak clearly]'',
                 timestamp = now env \<rparr>])"
  using assms
  by (simp add: transcribe_audio_def Let_def append_record_def write_file_def sentinel_text_def
      path_join_def RECORDINGS_DIR_def split: option.splits)

theorem unintelligible_audio_is_recorded_witness:
  "fst (transcribe_audio mumbled_env mumbled_request world1) =
      (Transcription ''[Could not understand audio - please speak clearly]''
         ''q2_20240101_120500.wav'', 200)
   \<and> interview_sessions (snd (transcribe_audio mumbled_env mumbled_request world1)) ''s1'' =
      Some [sample_record,
            \<lparr> question_number = ''2'', audio_file = ''recordings/q2_20240101_120500.wav'',
              transcription = ''[Could not understand audio - please speak clearly]'',
              timestamp = ''20240101_120500'' \<rparr>]"
  using unintelligible_audio_is_recorded [of mumbled_request "''webm-bytes''" mumbled_env world1]
  by (simp add: mumbled_request_def mumbled_env_def world1_def world0_def form_get_def)

subsection \<open>Exceptions of the transport\<close>

text \<open>
  Three transport failures are retried with sleeps of 1 and 2 and end in the
  network-error answer with status 500 and the last message.  When the exceptions are
  ValueErrors as well, the schema clause takes them, and its last message refers to
  \<open>json_text\<close>, which no attempt has assigned.
\<close>

lemma transport_failures_exhaust_retries:
  assumes "post 0 = RequestException m0" and "post 1 = RequestException m1"
    and "post 2 = RequestException m2"
  shows "call_gemini json_loads post 0 None w =
     (Inr (Error (''Network error communicating with Gemini API: '' @ m2), 500),
      w\<lparr>net_calls := net_calls w + 3, slept := slept w @ [1, 2]\<rparr>)"
proof -
  have b0: "try_body json_loads (post 0) None = (NetworkError m0, None)"
    using assms(1) by (simp add: try_body_def)
  have b1: "try_body json_loads (post (Suc 0)) None = (NetworkError m1, None)"
    using assms(2) by (simp add: try_body_def)
  have b2: "try_body json_loads (post (Suc (Suc 0))) None = (NetworkError m2, None)"
    using assms(3) by (simp add: try_body_def numeral_2_eq_2)
  have s0: "call_gemini json_loads post 0 None w =
      call_gemini json_loads post (Suc 0) None (time_sleep (2 ^ 0) (requests_post w))"
    using b0 by (simp add: call_gemini_network_retry max_retries_def)
  have s1: "call_gemini json_loads post (Suc 0) None w' =
      call_gemini json_loads post (Suc (Suc 0)) None (time_sleep (2 ^ Suc 0) (requests_post w'))" for w'
    using b1 by (simp add: call_gemini_network_retry max_retries_def)
  have s2: "call_gemini json_loads post (Suc (Suc 0)) None w' =
      (Inr (Error (''Network error communicating with Gemini API: '' @ m2), 500),
       requests_post w')" for w'
    using b2 by (simp add: call_gemini_network_final max_retries_def)
  show ?thesis
    by (simp add: s0 s1 s2 requests_post_def time_sleep_def)
qed

lemma value_error_transport_failures_reach_schema_clause:
  assumes "post 0 = RequestValueError m0" and "post 1 = RequestValueError m1"
    and "post 2 = RequestValueError m2"
  shows "call_gemini json_loads post 0 None w =
     (Inl (UnboundLocalError ''json_text''),
      w\<lparr>net_calls := net_calls w + 3, slept := slept w @ [1, 2]\<rparr>)"
proof -
  have b0: "try_body json_loads (post 0) None = (JSONSchemaError, None)"
    using assms(1) by (simp add: try_body_def)
  have b1: "try_body json_loads (post (Suc 0)) None = (JSONSchemaError, None)"
    using assms(2) by (simp add: try_body_def)
  have b2: "try_body json_loads (post (Suc (Suc 0))) None = (JSONSchemaError, None)"
    using assms(3) by (simp add: try_body_def numeral_2_eq_2)
  have s0: "call_gemini json_loads post 0 None w =
      call_gemini json_loads post (Suc 0) None (time_sleep (2 ^ 0) (requests_post w))"
    using b0 by (simp add: call_gemini_schema_retry max_retries_def)
  have s1: "call_gemini json_loads post (Suc 0) None w' =
      call_gemini json_loads post (Suc (Suc 0)) None (time_sleep (2 ^ Suc 0) (requests_post w'))" for w'
    using b1 by (simp add: call_gemini_schema_retry max_retries_def)
  have s2: "call_gemini json_loads post (Suc (Suc 0)) None w' =
      (Inl (UnboundLocalError ''json_text''), requests_post w')" for w'
    using b2 by (simp add: call_gemini_schema_final max_retries_def)
  show ?thesis
    by (simp add: s0 s1 s2 requests_post_def time_sleep_def)
qed

end
